theory Spec2Isabelle
  imports
    Complex_Main
    "HOL-Library.Sublist"
    "HOL-Library.Char_ord"
    "HOL-Library.List_Lexorder"
begin

section \<open>NOAA satellite receiver: an embedding of \<open>noaa_capture.py\<close>\<close>

text \<open>
  The program is the class \<open>NOAACapture\<close>. Its methods are translated one by one, under
  their own names. Conventions of the embedding:
  \<^item> Instants (\<open>ephem.Date\<close>, \<open>datetime\<close>) are real numbers counting days, as
    \<open>ephem.Date\<close> does; \<open>ephem.second\<close> and \<open>ephem.minute\<close> are the fractions
    of a day of the library. Python floats are idealised as exact reals, so the rounding
    of float arithmetic is not part of the model.
  \<^item> The orbit propagator (\<open>ephem\<close>), the external executables (\<open>rtl_fm\<close>,
    \<open>sox\<close>, \<open>noaa-apt\<close>, \<open>sshpass scp\<close>) and the operating system are
    parameters: functions collected in a record \<open>env\<close>. Angles arrive in degrees
    (\<open>math.degrees\<close> is folded into the propagator).
  \<^item> Text is ASCII: a \<open>string\<close> is a list of bytes and Python compares strings by
    code point, as \<open>HOL-Library.List_Lexorder\<close> over \<open>HOL-Library.Char_ord\<close> does.
\<close>

subsection \<open>Strings\<close>

text \<open>\<open>str.strip()\<close> removes the ASCII white space of Python from both ends.\<close>

definition is_space :: "char \<Rightarrow> bool" where
  "is_space c = (c \<in> set [CHR 0x20, CHR 0x09, CHR 0x0A, CHR 0x0B, CHR 0x0C, CHR 0x0D,
                            CHR 0x1C, CHR 0x1D, CHR 0x1E, CHR 0x1F])"

definition strip :: "string \<Rightarrow> string" where
  "strip s = rev (dropWhile is_space (rev (dropWhile is_space s)))"

text \<open>\<open>a in b\<close> on strings is \<^const>\<open>sublist\<close>: \<open>b\<close> contains \<open>a\<close> as a contiguous run.\<close>

abbreviation str_in :: "string \<Rightarrow> string \<Rightarrow> bool" where
  "str_in a b \<equiv> sublist a b"

subsection \<open>Orbital element file: \<open>get_tle_data\<close>\<close>

text \<open>
  The file \<open>weather.tle\<close> as \<open>get_tle_data\<close> meets it: absent
  (\<open>os.path.exists\<close> is false), unreadable (\<open>open\<close> or \<open>readlines\<close> raises), or
  the list that \<open>readlines()\<close> returns, each line with its line terminator.
\<close>

datatype tle_file = NoFile | Unreadable | Lines "string list"

record tle =
  name :: string
  line1 :: string
  line2 :: string

text \<open>
  \<open>for i in range(len(lines) - 2): if sat_name in lines[i]: return {...}\<close>.
  For fewer than two lines the range is empty, as \<open>[0..<length lines - 2]\<close> is.
  Every index the loop visits has \<open>i + 2 < length lines\<close>, so no read is out of range.
\<close>

definition get_tle_data :: "tle_file \<Rightarrow> string \<Rightarrow> tle option" where
  "get_tle_data tf sat_name =
     (case tf of
        NoFile \<Rightarrow> None
      | Unreadable \<Rightarrow> None
      | Lines lines \<Rightarrow>
          (case List.find (\<lambda>i. str_in sat_name (lines ! i)) [0..<length lines - 2] of
             Some i \<Rightarrow> Some \<lparr>name = strip (lines ! i),
                             line1 = strip (lines ! (i + 1)),
                             line2 = strip (lines ! (i + 2))\<rparr>
           | None \<Rightarrow> None))"

subsection \<open>The external collaborators\<close>

text \<open>What \<open>observer.next_pass(sat)\<close> does: it returns rise time, culmination altitude
  (degrees) and set time, raises \<open>ValueError\<close>, or raises another exception.\<close>

datatype pass_result = Pass real real real | ValueError | OtherError

text \<open>How a \<open>subprocess.run(..., check=True)\<close> ends: exit status zero, a non-zero exit
  status (\<open>CalledProcessError\<close>), or the executable cannot be run at all (\<open>OSError\<close>,
  which is not a \<open>CalledProcessError\<close>).\<close>

datatype outcome = Exit0 | NonZero | OSError

datatype variant = Basic | MSA | MSA_PRECIP | HVCT | THERM

type_synonym path = string

text \<open>The files that exist, each with its size in bytes.\<close>

type_synonym fsys = "(path \<times> nat) list"

text \<open>What a recording ends as: \<open>Popen\<close> raises, or the recorder has run for the given time,
  leaving a file system behind, and has (or has not) exited within the grace period.\<close>

datatype rec_result = Popen_failed | Recorded fsys bool

record env =
  readtle :: "tle \<Rightarrow> bool"
    \<comment> \<open>\<open>ephem.readtle\<close> accepts the three lines (otherwise it raises)\<close>
  compute :: "tle \<Rightarrow> real \<Rightarrow> real option"
    \<comment> \<open>\<open>sat.compute(observer)\<close> at an instant: the altitude in degrees, or it raises\<close>
  next_pass :: "tle \<Rightarrow> real \<Rightarrow> pass_result"
    \<comment> \<open>\<open>observer.next_pass(sat)\<close> with \<open>observer.date\<close> the given instant\<close>
  strftime :: "real \<Rightarrow> string"
    \<comment> \<open>\<open>aos.strftime('%Y%m%d_%H%M%S')\<close>\<close>
  makedirs :: "path \<Rightarrow> bool"
    \<comment> \<open>\<open>os.makedirs(p, exist_ok=True)\<close> succeeds (otherwise it raises \<open>OSError\<close>)\<close>
  rtl_fm :: "int \<Rightarrow> int \<Rightarrow> real \<Rightarrow> path \<Rightarrow> real \<Rightarrow> fsys \<Rightarrow> rec_result"
    \<comment> \<open>frequency, sample rate, gain, output file, seconds of recording\<close>
  sox :: "path \<Rightarrow> path \<Rightarrow> fsys \<Rightarrow> outcome \<times> fsys"
    \<comment> \<open>input file, output file\<close>
  noaa_apt :: "variant \<Rightarrow> path \<Rightarrow> path \<Rightarrow> fsys \<Rightarrow> outcome \<times> fsys"
    \<comment> \<open>enhancement, input file, output file\<close>
  scp :: "path \<Rightarrow> fsys \<Rightarrow> outcome"
    \<comment> \<open>the transfer to the display: exit status, or timeout and other exceptions\<close>

subsection \<open>Pass duration: \<open>calculate_pass_duration\<close>\<close>

text \<open>\<open>int(x)\<close> on a float truncates towards zero.\<close>

definition py_int :: "real \<Rightarrow> int" where
  "py_int x = (if 0 \<le> x then \<lfloor>x\<rfloor> else \<lceil>x\<rceil>)"

definition second :: real where
  "second = 1 / 86400"

definition minute :: real where
  "minute = 1 / 1440"

text \<open>
  The loop \<open>for _ in range(40)\<close>, with the number of iterations left as first argument.
  The state is \<open>current_time\<close> and \<open>max_el\<close>. \<open>None\<close> is an exception raised by
  \<open>sat.compute\<close>; a result \<open>Some (d, m)\<close> is the pair the function returns.
\<close>

fun sample_loop :: "nat \<Rightarrow> (real \<Rightarrow> real option) \<Rightarrow> real \<Rightarrow> real \<Rightarrow> real \<Rightarrow> (int \<times> int) option" where
  "sample_loop 0 alt aos_time current_time max_el = Some (600, py_int max_el)"
| "sample_loop (Suc n) alt aos_time current_time max_el =
     (case alt current_time of
        None \<Rightarrow> None
      | Some el \<Rightarrow>
          (let max_el = (if el > max_el then el else max_el) in
           if el < 0 \<and> current_time > aos_time
           then Some (py_int ((current_time - aos_time) * 86400), py_int max_el)
           else sample_loop n alt aos_time (current_time + second * 30) max_el))"

definition calculate_pass_duration :: "env \<Rightarrow> tle_file \<Rightarrow> string \<Rightarrow> real \<Rightarrow> int \<times> int" where
  "calculate_pass_duration e tf sat_name aos_time =
     (case get_tle_data tf sat_name of
        None \<Rightarrow> (0, 0)
      | Some t \<Rightarrow>
          if \<not> readtle e t then (600, 0)
          else (case sample_loop 40 (compute e t) aos_time aos_time 0 of
                  None \<Rightarrow> (600, 0)
                | Some r \<Rightarrow> r))"


subsection \<open>Pass prediction: \<open>predict_next_passes\<close>\<close>

record sat_config =
  sat_enabled :: bool
  sat_frequency :: int

text \<open>
  The configuration, with the defaults of \<open>config.get(key, True)\<close> resolved:
  \<open>generate v\<close> is the flag \<open>generate_basic\<close>, \<open>generate_msa\<close>, ... of the variant.
  \<open>satellites\<close> lists the items of the dictionary in iteration order.
\<close>

record config =
  satellites :: "(string \<times> sat_config) list"
  min_elevation :: real
  rtl_sdr_gain :: real
  sample_rate :: int
  frequency_offset :: int
  audio_dir :: path
  images_dir :: path
  generate :: "variant \<Rightarrow> bool"
  save_raw_audio :: bool

record pass_info =
  satellite :: string
  aos :: real
  los :: real
  max_elevation :: real
  duration :: int
  frequency :: int

text \<open>
  The loop \<open>while observer.date.datetime() < end_time\<close> for one satellite; \<open>date\<close> is
  \<open>observer.date\<close>. Nothing bounds the number of iterations (the propagator may keep
  answering with a set time that does not advance), so the loop is a partial function and
  \<open>None\<close> means that it does not return. Both \<open>break\<close>s and the exception handlers
  leave the loop with the passes appended so far. The calls of the logger are left out of
  the predictor: they do not change what it returns.
\<close>

partial_function (option) find_passes ::
  "env \<Rightarrow> config \<Rightarrow> tle_file \<Rightarrow> string \<Rightarrow> sat_config \<Rightarrow> tle \<Rightarrow> real \<Rightarrow> real
     \<Rightarrow> pass_info list \<Rightarrow> pass_info list option" where
  "find_passes e cfg tf sat_name sc t end_time date passes =
     (if date < end_time then
        (case next_pass e t date of
           ValueError \<Rightarrow> Some passes
         | OtherError \<Rightarrow> Some passes
         | Pass tr max_alt_deg ts \<Rightarrow>
             if tr > end_time then Some passes
             else find_passes e cfg tf sat_name sc t end_time (ts + minute)
                    (if max_alt_deg \<ge> min_elevation cfg
                     then passes @
                       [\<lparr>satellite = sat_name, aos = tr, los = ts,
                         max_elevation = max_alt_deg,
                         duration = fst (calculate_pass_duration e tf sat_name tr),
                         frequency = sat_frequency sc\<rparr>]
                     else passes))
      else Some passes)"

declare find_passes.simps [code]

text \<open>The loop \<open>for sat_name, sat_config in self.config['satellites'].items()\<close>.\<close>

fun predict_sats ::
  "env \<Rightarrow> config \<Rightarrow> tle_file \<Rightarrow> real \<Rightarrow> real \<Rightarrow> (string \<times> sat_config) list
     \<Rightarrow> pass_info list \<Rightarrow> pass_info list option" where
  "predict_sats e cfg tf now end_time [] passes = Some passes"
| "predict_sats e cfg tf now end_time ((sat_name, sc) # rest) passes =
     (if \<not> sat_enabled sc then predict_sats e cfg tf now end_time rest passes
      else
        (case get_tle_data tf sat_name of
           None \<Rightarrow> predict_sats e cfg tf now end_time rest passes
         | Some t \<Rightarrow>
             if \<not> readtle e t then predict_sats e cfg tf now end_time rest passes
             else
               (case find_passes e cfg tf sat_name sc t end_time now passes of
                  None \<Rightarrow> None
                | Some passes' \<Rightarrow> predict_sats e cfg tf now end_time rest passes')))"

text \<open>\<open>passes.sort(key=lambda x: x['aos'])\<close> is a stable sort, as \<^const>\<open>sort_key\<close> is.\<close>

definition predict_next_passes ::
  "env \<Rightarrow> config \<Rightarrow> tle_file \<Rightarrow> real \<Rightarrow> int \<Rightarrow> pass_info list option" where
  "predict_next_passes e cfg tf now hours =
     map_option (sort_key aos)
       (predict_sats e cfg tf now (now + real_of_int hours / 24) (satellites cfg) [])"

subsection \<open>The world the capture and the pipeline act on\<close>

datatype level = DEBUG | INFO | WARNING | ERROR

text \<open>What the program does to the outside, in order: records handed to the logger, calls of
  \<open>time.sleep\<close>, and the external commands it starts. The words of a log record are
  kept without the values that the source formats into them, paths apart. External commands
  take no time on the clock of the model; only \<open>time.sleep\<close> advances it.\<close>

datatype event =
    Log level string
  | Sleep real
  | Start_rtl_fm path
  | Terminate_rtl_fm
  | Kill_rtl_fm
  | Run_sox path path
  | Run_noaa_apt variant path path
  | Run_scp path

text \<open>An exception in flight: \<open>KeyboardInterrupt\<close>, or one that \<open>except Exception\<close>
  catches.\<close>

datatype exn = KeyboardInterrupt | Exception

record world =
  tle_store :: tle_file
  fs :: fsys
  clock :: real
  interrupt :: "real \<Rightarrow> real \<Rightarrow> bool"
    \<comment> \<open>the operator interrupts the sleep that starts at the instant and lasts the seconds given\<close>
  trace :: "event list"

definition emit :: "event \<Rightarrow> world \<Rightarrow> world" where
  "emit ev w = w\<lparr>trace := trace w @ [ev]\<rparr>"

definition logmsg :: "level \<Rightarrow> string \<Rightarrow> world \<Rightarrow> world" where
  "logmsg lv m w = emit (Log lv m) w"

text \<open>\<open>time.sleep(secs)\<close>: a negative length raises \<open>ValueError\<close>; an interrupt raises
  \<open>KeyboardInterrupt\<close>; otherwise the clock advances.\<close>

definition sleep :: "real \<Rightarrow> world \<Rightarrow> exn option \<times> world" where
  "sleep secs w =
     (if secs < 0 then (Some Exception, w)
      else if interrupt w (clock w) secs then (Some KeyboardInterrupt, emit (Sleep secs) w)
      else (None, (emit (Sleep secs) w)\<lparr>clock := clock w + secs * second\<rparr>))"

definition path_exists :: "path \<Rightarrow> fsys \<Rightarrow> bool" where
  "path_exists p files = (map_of files p \<noteq> None)"

definition os_remove :: "path \<Rightarrow> fsys \<Rightarrow> fsys" where
  "os_remove p files = filter (\<lambda>(q, n). q \<noteq> p) files"

definition fs_write :: "path \<Rightarrow> nat \<Rightarrow> fsys \<Rightarrow> fsys" where
  "fs_write p n files = (p, n) # os_remove p files"

text \<open>\<open>os.path.join\<close> of two components.\<close>

definition path_join :: "path \<Rightarrow> path \<Rightarrow> path" where
  "path_join a b =
     (if prefix ''/'' b then b
      else if a = [] \<or> suffix ''/'' a then a @ b
      else a @ ''/'' @ b)"

text \<open>\<open>s.replace(old, new)\<close> for a non-empty \<open>old\<close>, the only use the program makes of it.\<close>

function str_replace :: "string \<Rightarrow> string \<Rightarrow> string \<Rightarrow> string" where
  "str_replace old new [] = []"
| "str_replace old new (c # cs) =
     (if old \<noteq> [] \<and> prefix old (c # cs)
      then new @ str_replace old new (drop (length old) (c # cs))
      else c # str_replace old new cs)"
  by pat_completeness auto
termination
  by (relation "measure (\<lambda>(old, new, s). length s)") auto

text \<open>
  \<open>glob.glob(os.path.join(image_dir, f"{filename_base}*.png"))\<close>: the existing paths that
  start with the directory and the base name, end with \<open>.png\<close>, and have no further
  \<open>/\<close> in between. Base names and directories are taken to be free of the
  metacharacters of \<open>glob\<close>.
\<close>

definition glob_png :: "path \<Rightarrow> string \<Rightarrow> fsys \<Rightarrow> path list" where
  "glob_png image_dir filename_base files =
     filter (\<lambda>p. let pre = path_join image_dir filename_base; r = drop (length pre) p
                 in prefix pre p \<and> suffix ''.png'' r \<and> CHR ''/'' \<notin> set r)
       (remdups (map fst files))"


subsection \<open>Forwarding: \<open>send_to_epaper\<close>\<close>

text \<open>Every way the transfer can end is handled inside; the method returns normally.\<close>

definition send_to_epaper :: "env \<Rightarrow> path \<Rightarrow> world \<Rightarrow> world" where
  "send_to_epaper e image_file w =
     (let w = logmsg INFO (''Sending to e-Paper display: '' @ image_file) w;
          w = emit (Run_scp image_file) w
      in case scp e image_file (fs w) of
           Exit0 \<Rightarrow> logmsg INFO ''Image sent to e-Paper display successfully'' w
         | NonZero \<Rightarrow> logmsg ERROR ''Failed to send to display'' w
         | OSError \<Rightarrow> logmsg ERROR ''Failed to send to display'' w)"

subsection \<open>Image pipeline: \<open>process_audio\<close>\<close>

text \<open>
  The five decoder blocks of \<open>process_audio\<close> are one block each for \<open>Basic\<close>,
  \<open>MSA\<close>, \<open>MSA_PRECIP\<close>, \<open>HVCT\<close> and \<open>THERM\<close>, in that order. They differ in the file
  name suffix, in the words and the level of the log records, and in one statement:
  only the block of the basic image assigns \<open>first_image\<close>.
\<close>

fun suffix_of :: "variant \<Rightarrow> string" where
  "suffix_of Basic = []"
| "suffix_of MSA = ''_MSA''"
| "suffix_of MSA_PRECIP = ''_MSA_PRECIP''"
| "suffix_of HVCT = ''_HVCT''"
| "suffix_of THERM = ''_THERM''"

fun label_of :: "variant \<Rightarrow> string" where
  "label_of Basic = ''basic''"
| "label_of MSA = ''MSA''"
| "label_of MSA_PRECIP = ''MSA-PRECIP''"
| "label_of HVCT = ''HVCT''"
| "label_of THERM = ''THERM''"

fun assigns_first_image :: "variant \<Rightarrow> bool" where
  "assigns_first_image Basic = True"
| "assigns_first_image _ = False"

definition output_file_of :: "path \<Rightarrow> string \<Rightarrow> variant \<Rightarrow> path" where
  "output_file_of image_dir filename_base v =
     path_join image_dir (filename_base @ suffix_of v @ ''.png'')"

text \<open>One block: the result is the exception that leaves \<open>process_audio\<close> (if any), the
  value of \<open>first_image\<close> and the world.\<close>

definition decode_variant ::
  "env \<Rightarrow> config \<Rightarrow> path \<Rightarrow> string \<Rightarrow> path \<Rightarrow> variant \<Rightarrow> path option \<Rightarrow> world
     \<Rightarrow> exn option \<times> path option \<times> world" where
  "decode_variant e cfg image_dir filename_base resampled_file v first_image w =
     (if \<not> generate cfg v then (None, first_image, w)
      else
        (let output_file = output_file_of image_dir filename_base v;
             w1 = emit (Run_noaa_apt v resampled_file output_file) w
         in case noaa_apt e v resampled_file output_file (fs w1) of
              (Exit0, files) \<Rightarrow>
                (None,
                 (if assigns_first_image v \<and> first_image = None then Some output_file
                  else first_image),
                 logmsg INFO (''Generated '' @ label_of v @ '' image: '' @ output_file)
                   (w1\<lparr>fs := files\<rparr>))
            | (NonZero, files) \<Rightarrow>
                (None, first_image,
                 (if v = Basic then logmsg ERROR ''Failed to generate basic image''
                  else logmsg DEBUG (label_of v @ '' image generation skipped or failed''))
                   (w1\<lparr>fs := files\<rparr>))
            | (OSError, files) \<Rightarrow> (Some Exception, first_image, w1\<lparr>fs := files\<rparr>)))"

fun decode_all ::
  "env \<Rightarrow> config \<Rightarrow> path \<Rightarrow> string \<Rightarrow> path \<Rightarrow> variant list \<Rightarrow> path option \<Rightarrow> world
     \<Rightarrow> exn option \<times> path option \<times> world" where
  "decode_all e cfg image_dir filename_base resampled_file [] first_image w =
     (None, first_image, w)"
| "decode_all e cfg image_dir filename_base resampled_file (v # vs) first_image w =
     (case decode_variant e cfg image_dir filename_base resampled_file v first_image w of
        (Some x, first_image, w) \<Rightarrow> (Some x, first_image, w)
      | (None, first_image, w) \<Rightarrow>
          decode_all e cfg image_dir filename_base resampled_file vs first_image w)"

text \<open>
  \<open>if first_image and os.path.exists(first_image): ... else: ...\<close>. The fallback takes
  \<open>sorted(all_images)[0]\<close> when the list is not empty.
\<close>

definition forward_first :: "env \<Rightarrow> path \<Rightarrow> string \<Rightarrow> path option \<Rightarrow> world \<Rightarrow> world" where
  "forward_first e image_dir filename_base first_image w =
     (if first_image \<noteq> None \<and> path_exists (the first_image) (fs w)
      then send_to_epaper e (the first_image) w
      else
        (case sort (glob_png image_dir filename_base (fs w)) of
           [] \<Rightarrow> w
         | p # _ \<Rightarrow> send_to_epaper e p w))"

text \<open>\<open>try: os.remove(p) ... except: pass\<close>; \<open>note\<close> is the record logged after a
  removal that succeeded, if the source logs one.\<close>

definition try_remove :: "path \<Rightarrow> string option \<Rightarrow> world \<Rightarrow> world" where
  "try_remove p note w =
     (if path_exists p (fs w)
      then (case note of
              None \<Rightarrow> w\<lparr>fs := os_remove p (fs w)\<rparr>
            | Some m \<Rightarrow> logmsg INFO m (w\<lparr>fs := os_remove p (fs w)\<rparr>))
      else w)"

definition process_audio ::
  "env \<Rightarrow> config \<Rightarrow> path \<Rightarrow> string \<Rightarrow> world \<Rightarrow> exn option \<times> world" where
  "process_audio e cfg audio_file filename_base w =
     (let w = logmsg INFO (''Processing audio: '' @ audio_file) w;
          image_dir = images_dir cfg
      in if \<not> makedirs e image_dir then (Some Exception, w)
         else
           (let resampled_file = str_replace ''.wav'' ''_resampled.wav'' audio_file;
                w = emit (Run_sox audio_file resampled_file) w
            in case sox e audio_file resampled_file (fs w) of
                 (NonZero, files) \<Rightarrow>
                   (None, logmsg ERROR ''Failed to resample audio'' (w\<lparr>fs := files\<rparr>))
               | (OSError, files) \<Rightarrow> (Some Exception, w\<lparr>fs := files\<rparr>)
               | (Exit0, files) \<Rightarrow>
                   (let w = logmsg INFO ''Audio resampled to 11025 Hz'' (w\<lparr>fs := files\<rparr>)
                    in case decode_all e cfg image_dir filename_base resampled_file
                              [Basic, MSA, MSA_PRECIP, HVCT, THERM] None w of
                         (Some x, first_image, w) \<Rightarrow> (Some x, w)
                       | (None, first_image, w) \<Rightarrow>
                           (let w = forward_first e image_dir filename_base first_image w;
                                w = (if \<not> save_raw_audio cfg
                                     then try_remove audio_file
                                            (Some (''Removed raw audio file: '' @ audio_file)) w
                                     else w);
                                w = try_remove resampled_file None w
                            in (None, w)))))"

subsection \<open>Capture session: \<open>capture_pass\<close>\<close>

text \<open>\<open>except Exception as e: self.logger.error(...)\<close> around a block: an \<open>Exception\<close>
  is logged and absorbed, a \<open>KeyboardInterrupt\<close> passes through.\<close>

definition except_Exception :: "string \<Rightarrow> exn option \<times> world \<Rightarrow> exn option \<times> world" where
  "except_Exception m r =
     (case r of
        (Some Exception, w) \<Rightarrow> (None, logmsg ERROR m w)
      | (Some KeyboardInterrupt, w) \<Rightarrow> (Some KeyboardInterrupt, w)
      | (None, w) \<Rightarrow> (None, w))"

text \<open>The body of the \<open>try\<close> of \<open>capture_pass\<close>.\<close>

definition record_and_process ::
  "env \<Rightarrow> config \<Rightarrow> pass_info \<Rightarrow> path \<Rightarrow> string \<Rightarrow> world \<Rightarrow> exn option \<times> world" where
  "record_and_process e cfg p audio_file filename_base w =
     (let w = emit (Start_rtl_fm audio_file) w
      in case rtl_fm e (frequency p + frequency_offset cfg) (sample_rate cfg) (rtl_sdr_gain cfg)
                audio_file (real_of_int (duration p)) (fs w) of
           Popen_failed \<Rightarrow> (Some Exception, w)
         | Recorded files exited \<Rightarrow>
             (case sleep (real_of_int (duration p)) w of
                (Some x, w) \<Rightarrow> (Some x, w)
              | (None, w) \<Rightarrow>
                  (let w = emit Terminate_rtl_fm (w\<lparr>fs := files\<rparr>);
                       w = (if exited then w else emit Kill_rtl_fm w);
                       w = logmsg INFO (''Capture complete: '' @ audio_file) w
                   in if (case map_of (fs w) audio_file of Some n \<Rightarrow> 0 < n | None \<Rightarrow> False)
                      then process_audio e cfg audio_file filename_base w
                      else (None,
                            logmsg ERROR
                              (''Audio file is empty or doesn't exist: '' @ audio_file) w))))"

definition capture_pass :: "env \<Rightarrow> config \<Rightarrow> pass_info \<Rightarrow> world \<Rightarrow> exn option \<times> world" where
  "capture_pass e cfg p w =
     (let timestamp = strftime e (aos p);
          filename_base = str_replace '' '' ''_'' (satellite p) @ ''_'' @ timestamp
      in if \<not> makedirs e (audio_dir cfg) then (Some Exception, w)
         else
           (let audio_file = path_join (audio_dir cfg) (filename_base @ ''.wav'');
                w = logmsg INFO (''Starting capture: '' @ satellite p) w;
                now = clock w
            in case (if aos p > now
                     then sleep ((aos p - now) * 86400) (logmsg INFO ''Waiting until AOS...'' w)
                     else (None, w)) of
                 (Some x, w) \<Rightarrow> (Some x, w)
               | (None, w) \<Rightarrow>
                   (let w = logmsg INFO ''Recording...'' w;
                        w = logmsg DEBUG ''Command: rtl_fm ...'' w
                    in except_Exception ''Error during capture''
                         (record_and_process e cfg p audio_file filename_base w))))"

subsection \<open>Scheduler: \<open>schedule_next_pass\<close> and \<open>run_scheduler\<close>\<close>

definition schedule_next_pass ::
  "env \<Rightarrow> config \<Rightarrow> world \<Rightarrow> (pass_info option \<times> world) option" where
  "schedule_next_pass e cfg w =
     (case predict_next_passes e cfg (tle_store w) (clock w) 24 of
        None \<Rightarrow> None
      | Some [] \<Rightarrow> Some (None, logmsg WARNING ''No passes found in the next 24 hours'' w)
      | Some (nxt # _) \<Rightarrow>
          Some (Some nxt, logmsg INFO (''Next pass: '' @ satellite nxt) w))"

text \<open>The body of the \<open>try\<close> in the loop of \<open>run_scheduler\<close>; \<open>None\<close> when the
  prediction does not return.\<close>

definition scheduler_iteration :: "env \<Rightarrow> config \<Rightarrow> world \<Rightarrow> (exn option \<times> world) option" where
  "scheduler_iteration e cfg w =
     (case schedule_next_pass e cfg w of
        None \<Rightarrow> None
      | Some (Some nxt, w) \<Rightarrow>
          Some
            (let now = clock w;
                 wait_until = aos nxt - 2 * minute
             in case (if wait_until > now
                      then sleep ((wait_until - now) * 86400) (logmsg INFO ''Sleeping...'' w)
                      else (None, w)) of
                  (Some x, w) \<Rightarrow> (Some x, w)
                | (None, w) \<Rightarrow> capture_pass e cfg nxt w)
      | Some (None, w) \<Rightarrow>
          Some (sleep (6 * 3600)
                  (logmsg INFO ''No passes scheduled, checking again in 6 hours...'' w)))"

text \<open>How one turn of \<open>while True\<close> ends: the loop goes on, it is left by \<open>break\<close>, or an
  exception leaves \<open>run_scheduler\<close>.\<close>

datatype turn = Continue | Break | Propagate exn

definition scheduler_turn :: "env \<Rightarrow> config \<Rightarrow> world \<Rightarrow> (turn \<times> world) option" where
  "scheduler_turn e cfg w =
     (case scheduler_iteration e cfg w of
        None \<Rightarrow> None
      | Some (None, w) \<Rightarrow> Some (Continue, w)
      | Some (Some KeyboardInterrupt, w) \<Rightarrow>
          Some (Break, logmsg INFO ''Scheduler stopped by user'' w)
      | Some (Some Exception, w) \<Rightarrow>
          Some (case sleep 300 (logmsg ERROR ''Error in scheduler'' w) of
                  (None, w) \<Rightarrow> (Continue, w)
                | (Some x, w) \<Rightarrow> (Propagate x, w)))"

text \<open>The loop \<open>while True\<close>: it returns only by \<open>break\<close> or by an exception raised in a
  handler, so it is a partial function.\<close>

partial_function (option) scheduler_loop ::
  "env \<Rightarrow> config \<Rightarrow> world \<Rightarrow> (exn option \<times> world) option" where
  "scheduler_loop e cfg w =
     (case scheduler_turn e cfg w of
        None \<Rightarrow> None
      | Some (Continue, w) \<Rightarrow> scheduler_loop e cfg w
      | Some (Break, w) \<Rightarrow> Some (None, w)
      | Some (Propagate x, w) \<Rightarrow> Some (Some x, w))"

declare scheduler_loop.simps [code]

definition run_scheduler :: "env \<Rightarrow> config \<Rightarrow> world \<Rightarrow> (exn option \<times> world) option" where
  "run_scheduler e cfg w =
     scheduler_loop e cfg (logmsg INFO ''Starting NOAA satellite scheduler...'' w)"

subsection \<open>Reading the trace\<close>

text \<open>The events a run has added to the trace of the world it started from.\<close>

definition events_since :: "world \<Rightarrow> world \<Rightarrow> event list" where
  "events_since w w' = drop (length (trace w)) (trace w')"

text \<open>The decoder invocations, the forwarding attempts and the entries into
  \<open>process_audio\<close> (its first statement logs \<open>Processing audio: ...\<close>) among events.\<close>

fun decoded :: "event list \<Rightarrow> variant list" where
  "decoded [] = []"
| "decoded (Run_noaa_apt v i out # evs) = v # decoded evs"
| "decoded (_ # evs) = decoded evs"

fun forwarded :: "event list \<Rightarrow> path list" where
  "forwarded [] = []"
| "forwarded (Run_scp p # evs) = p # forwarded evs"
| "forwarded (_ # evs) = forwarded evs"

fun pipeline_runs :: "event list \<Rightarrow> path list" where
  "pipeline_runs [] = []"
| "pipeline_runs (Log INFO m # evs) =
     (if prefix ''Processing audio: '' m
      then drop (length ''Processing audio: '') m # pipeline_runs evs
      else pipeline_runs evs)"
| "pipeline_runs (_ # evs) = pipeline_runs evs"

text \<open>The path \<open>capture_pass\<close> records to, and what the recorder is started with there.\<close>

definition audio_file_of :: "env \<Rightarrow> config \<Rightarrow> pass_info \<Rightarrow> path" where
  "audio_file_of e cfg p =
     path_join (audio_dir cfg)
       ((str_replace '' '' ''_'' (satellite p) @ ''_'' @ strftime e (aos p)) @ ''.wav'')"

definition recording_of :: "env \<Rightarrow> config \<Rightarrow> pass_info \<Rightarrow> world \<Rightarrow> rec_result" where
  "recording_of e cfg p w =
     rtl_fm e (frequency p + frequency_offset cfg) (sample_rate cfg) (rtl_sdr_gain cfg)
       (audio_file_of e cfg p) (real_of_int (duration p)) (fs w)"

section \<open>Concrete inputs\<close>

text \<open>An element file with two satellites, as the element source delivers it (names padded
  with blanks).\<close>

definition ex_lines :: "string list" where
  "ex_lines =
    [''NOAA 15                 '' @ [CHR 0x0A],
     ''1 25338U 98030A   24001.50000000  .00000100  00000-0  60000-4 0  9990'' @ [CHR 0x0A],
     ''2 25338  98.5700  30.0000 0010000 100.0000 260.0000 14.26000000330000'' @ [CHR 0x0A],
     ''NOAA 19                 '' @ [CHR 0x0A],
     ''1 33591U 09005A   24001.50000000  .00000100  00000-0  60000-4 0  9990'' @ [CHR 0x0A],
     ''2 33591  99.0500  50.0000 0013000 200.0000 160.0000 14.13000000770000'' @ [CHR 0x0A]]"

definition noaa15 :: tle where
  "noaa15 =
    \<lparr>name = ''NOAA 15'',
     line1 = ''1 25338U 98030A   24001.50000000  .00000100  00000-0  60000-4 0  9990'',
     line2 = ''2 25338  98.5700  30.0000 0010000 100.0000 260.0000 14.26000000330000''\<rparr>"

definition noaa19 :: tle where
  "noaa19 =
    \<lparr>name = ''NOAA 19'',
     line1 = ''1 33591U 09005A   24001.50000000  .00000100  00000-0  60000-4 0  9990'',
     line2 = ''2 33591  99.0500  50.0000 0013000 200.0000 160.0000 14.13000000770000''\<rparr>"

text \<open>A propagator that sees one pass of each satellite after day 45000: NOAA 15 rises at
  45000.5 and culminates at 50 degrees, NOAA 19 rises at 45000.25 and culminates at 35.\<close>

definition ex_next_pass :: "tle \<Rightarrow> real \<Rightarrow> pass_result" where
  "ex_next_pass t d =
     (if name t = ''NOAA 15''
      then (if d < 45000 + 1 / 2 then Pass (45000 + 1 / 2) 50 (45000 + 1 / 2 + 1 / 100)
            else ValueError)
      else (if d < 45000 + 1 / 4 then Pass (45000 + 1 / 4) 35 (45000 + 1 / 4 + 1 / 100)
            else ValueError))"

text \<open>Collaborators that all succeed: every sample of the altitude is 30 degrees, the
  recorder, the resampler and the decoder write their output file, the transfer exits with
  status zero.\<close>

definition ex_env :: env where
  "ex_env =
    \<lparr>readtle = (\<lambda>t. True),
     compute = (\<lambda>t x. Some 30),
     next_pass = ex_next_pass,
     strftime = (\<lambda>t. ''20240101_120000''),
     makedirs = (\<lambda>p. True),
     rtl_fm = (\<lambda>f sr g p secs files. Recorded (fs_write p 1000 files) True),
     sox = (\<lambda>i out files. (Exit0, fs_write out 400 files)),
     noaa_apt = (\<lambda>v i out files. (Exit0, fs_write out 200 files)),
     scp = (\<lambda>p files. Exit0)\<rparr>"

definition ex_cfg :: config where
  "ex_cfg =
    \<lparr>satellites =
       [(''NOAA 15'', \<lparr>sat_enabled = True, sat_frequency = 137620000\<rparr>),
        (''NOAA 19'', \<lparr>sat_enabled = True, sat_frequency = 137100000\<rparr>)],
     min_elevation = 20,
     rtl_sdr_gain = 40,
     sample_rate = 60000,
     frequency_offset = 0,
     audio_dir = ''/home/pi/audio'',
     images_dir = ''/home/pi/images'',
     generate = (\<lambda>v. True),
     save_raw_audio = True\<rparr>"

definition ex_world :: world where
  "ex_world =
    \<lparr>tle_store = Lines ex_lines,
     fs = [(''/home/pi/audio/NOAA_15_20240101_120000.wav'', 1000)],
     clock = 45000,
     interrupt = (\<lambda>t secs. False),
     trace = []\<rparr>"




text \<open>A propagator that answers with the set time of the pass in progress and the rise time
  of the pass after it.\<close>

definition in_progress_env :: env where
  "in_progress_env =
     ex_env\<lparr>next_pass :=
       (\<lambda>t d. if d < 45000 + 1 / 8 then Pass (45000 + 1 / 2) 50 (45000 + 1 / 4)
               else ValueError)\<rparr>"

text \<open>A decoder that fails on the basic image and succeeds on every enhancement.\<close>

definition no_basic_env :: env where
  "no_basic_env =
     ex_env\<lparr>noaa_apt :=
       (\<lambda>v i out files. if v = Basic then (NonZero, files) else (Exit0, fs_write out 200 files))\<rparr>"

text \<open>A resampler that stops with an error after it has begun to write its output.\<close>

definition sox_fails_env :: env where
  "sox_fails_env = ex_env\<lparr>sox := (\<lambda>i out files. (NonZero, fs_write out 44 files))\<rparr>"

text \<open>A recorder that leaves an empty file.\<close>

definition empty_recording_env :: env where
  "empty_recording_env =
     ex_env\<lparr>rtl_fm := (\<lambda>f sr g p secs files. Recorded (fs_write p 0 files) True)\<rparr>"


definition ex_pass :: pass_info where
  "ex_pass =
    \<lparr>satellite = ''NOAA 15'', aos = 45000 + 1 / 2, los = 45000 + 1 / 2 + 1 / 100,
     max_elevation = 50, duration = 600, frequency = 137620000\<rparr>"

text \<open>What the predictor is to return for \<open>ex_env\<close> and \<open>ex_cfg\<close> at day 45000.\<close>

definition ex_passes :: "pass_info list" where
  "ex_passes =
     [\<lparr>satellite = ''NOAA 19'', aos = 45000 + 1 / 4, los = 45000 + 1 / 4 + 1 / 100,
       max_elevation = 35, duration = 600, frequency = 137100000\<rparr>,
      \<lparr>satellite = ''NOAA 15'', aos = 45000 + 1 / 2, los = 45000 + 1 / 2 + 1 / 100,
       max_elevation = 50, duration = 600, frequency = 137620000\<rparr>]"

text \<open>The two passes appended for the propagator that reports a pass in progress.\<close>

definition in_progress_passes :: "pass_info list" where
  "in_progress_passes =
     [\<lparr>satellite = ''NOAA 15'', aos = 45000 + 1 / 2, los = 45000 + 1 / 4,
       max_elevation = 50, duration = 600, frequency = 137620000\<rparr>,
      \<lparr>satellite = ''NOAA 19'', aos = 45000 + 1 / 2, los = 45000 + 1 / 4,
       max_elevation = 50, duration = 600, frequency = 137100000\<rparr>]"

text \<open>The recording of the example pass and its base name.\<close>

definition ex_audio :: path where
  "ex_audio = ''/home/pi/audio/NOAA_15_20240101_120000.wav''"

definition ex_base :: string where
  "ex_base = ''NOAA_15_20240101_120000''"

definition ex_resampled :: path where
  "ex_resampled = ''/home/pi/audio/NOAA_15_20240101_120000_resampled.wav''"

section \<open>Properties\<close>

subsection \<open>Element lookup\<close>

lemma find_upt_Some:
  "List.find P [0..<n] = Some i \<longleftrightarrow> i < n \<and> P i \<and> (\<forall>j<i. \<not> P j)"
  by (auto simp: find_Some_iff)

lemma ex_lookup_15: "get_tle_data (Lines ex_lines) ''NOAA 15'' = Some noaa15"
  by code_simp

lemma ex_lookup_19: "get_tle_data (Lines ex_lines) ''NOAA 19'' = Some noaa19"
  by code_simp

text \<open>
  C2 (as amended). \<open>get_tle_data\<close> returns a record exactly for the first line, among all
  lines but the last two, that contains the queried name as a substring; the record is that
  line and the two lines after it, stripped.
\<close>

theorem get_tle_data_first_substring:
  "get_tle_data (Lines ls) s = Some r \<longleftrightarrow>
     (\<exists>i. i + 2 < length ls \<and> str_in s (ls ! i) \<and> (\<forall>j<i. \<not> str_in s (ls ! j)) \<and>
          r = \<lparr>name = strip (ls ! i), line1 = strip (ls ! (i + 1)), line2 = strip (ls ! (i + 2))\<rparr>)"
proof -
  let ?P = "\<lambda>i. str_in s (ls ! i)"
  let ?R = "\<lambda>i. \<lparr>name = strip (ls ! i), line1 = strip (ls ! (i + 1)), line2 = strip (ls ! (i + 2))\<rparr>"
  have g: "get_tle_data (Lines ls) s = map_option ?R (List.find ?P [0..<length ls - 2])"
    by (simp add: get_tle_data_def split: option.splits)
  have "map_option ?R (List.find ?P [0..<length ls - 2]) = Some r \<longleftrightarrow>
        (\<exists>i. List.find ?P [0..<length ls - 2] = Some i \<and> r = ?R i)"
    by (cases "List.find ?P [0..<length ls - 2]") auto
  also have "\<dots> \<longleftrightarrow> (\<exists>i. i + 2 < length ls \<and> ?P i \<and> (\<forall>j<i. \<not> ?P j) \<and> r = ?R i)"
    unfolding find_upt_Some by (intro ex_cong1) auto
  finally show ?thesis unfolding g .
qed

theorem get_tle_data_first_substring_witness:
  "\<exists>i. i + 2 < length ex_lines \<and> str_in ''NOAA 19'' (ex_lines ! i) \<and>
       (\<forall>j<i. \<not> str_in ''NOAA 19'' (ex_lines ! j)) \<and>
       noaa19 = \<lparr>name = strip (ex_lines ! i), line1 = strip (ex_lines ! (i + 1)),
                 line2 = strip (ex_lines ! (i + 2))\<rparr>"
  using get_tle_data_first_substring [of ex_lines "''NOAA 19''" noaa19] ex_lookup_19
  by simp

theorem get_tle_data_substring_counterexample:
  "get_tle_data (Lines ex_lines) ''NOAA 1'' = Some noaa15 \<and> name noaa15 \<noteq> ''NOAA 1''"
  by code_simp

subsection \<open>Pass duration\<close>

lemma Max_insert_max:
  "finite A \<Longrightarrow> Max (insert (max m x) A) = Max (insert m (insert x A))"
  by (cases "A = {}") (simp_all add: max.assoc)

lemma py_int_of_nat: "py_int (real n) = int n"
  by (simp add: py_int_def)

lemma elapsed_seconds: "py_int ((a0 + real i * (second * 30) - a0) * 86400) = 30 * int i"
proof -
  have "(a0 + real i * (second * 30) - a0) * 86400 = real i * (second * 30 * 86400)"
    by (simp add: algebra_simps)
  also have "second * 30 * 86400 = 30" by (simp add: second_def)
  finally have h: "(a0 + real i * (second * 30) - a0) * 86400 = real (30 * i)"
    by simp
  show ?thesis unfolding h py_int_of_nat by simp
qed

lemma after_rise: "a0 + real i * (second * 30) > a0 \<longleftrightarrow> 0 < i"
  by (simp add: second_def zero_less_mult_iff)

lemma next_sample: "a0 + real i * (second * 30) + second * 30 = a0 + real (Suc i) * (second * 30)"
  by (simp add: algebra_simps)

lemma running_max: "(if m < x then x else m) = max m (x::real)"
  by (simp add: max_def)

text \<open>The loop from sample \<open>i\<close> on, when no sample after the first is negative.\<close>

lemma sample_loop_no_los:
  assumes "\<forall>j. i \<le> j \<and> j < i + n \<longrightarrow> alt (a0 + real j * (second * 30)) = Some (el j)"
      and "\<forall>j. i \<le> j \<and> j < i + n \<and> 0 < j \<longrightarrow> 0 \<le> el j"
  shows "sample_loop n alt a0 (a0 + real i * (second * 30)) m
         = Some (600, py_int (Max (insert m (el ` {i..<i + n}))))"
  using assms
proof (induction n arbitrary: i m)
  case 0
  then show ?case by simp
next
  case (Suc n)
  have a: "alt (a0 + real i * (second * 30)) = Some (el i)" using Suc.prems(1) by simp
  have b: "\<not> (el i < 0 \<and> 0 < i)" using Suc.prems(2) by (auto simp: not_less)
  have ih: "sample_loop n alt a0 (a0 + real (Suc i) * (second * 30)) (max m (el i))
         = Some (600, py_int (Max (insert (max m (el i)) (el ` {Suc i..<Suc i + n}))))"
    by (rule Suc.IH) (use Suc.prems in auto)
  have s: "{i..<i + Suc n} = insert i {Suc i..<Suc i + n}" by auto
  have mx: "Max (insert (max m (el i)) (el ` {Suc i..<Suc i + n})) = Max (insert m (el ` {i..<i + Suc n}))"
    unfolding s by (simp only: image_insert Max_insert_max finite_imageI finite_atLeastLessThan)
  show ?case
    using a b ih
    by (simp only: sample_loop.simps option.case Let_def after_rise running_max next_sample mx) simp
qed


text \<open>Whatever the altitudes are, the loop raises, returns 600, or returns \<open>30 * k\<close> at a
  negative sample \<open>k\<close>.\<close>

lemma sample_loop_cases:
  "sample_loop n alt a0 (a0 + real i * (second * 30)) m = None \<or>
   (\<exists>x. sample_loop n alt a0 (a0 + real i * (second * 30)) m = Some (600, x)) \<or>
   (\<exists>k x el. i \<le> k \<and> k < i + n \<and> 0 < k \<and> alt (a0 + real k * (second * 30)) = Some el \<and> el < 0 \<and>
       sample_loop n alt a0 (a0 + real i * (second * 30)) m = Some (30 * int k, x))"
proof (induction n arbitrary: i m)
  case 0
  then show ?case by simp
next
  case (Suc n)
  show ?case
  proof (cases "alt (a0 + real i * (second * 30))")
    case None
    then show ?thesis by simp
  next
    case (Some el)
    show ?thesis
    proof (cases "el < 0 \<and> 0 < i")
      case True
      then have "sample_loop (Suc n) alt a0 (a0 + real i * (second * 30)) m
                 = Some (30 * int i, py_int (max m el))"
        using Some
        by (simp only: sample_loop.simps option.case Let_def after_rise running_max elapsed_seconds) simp
      with True Some show ?thesis by auto
    next
      case False
      then have eq: "sample_loop (Suc n) alt a0 (a0 + real i * (second * 30)) m
                 = sample_loop n alt a0 (a0 + real (Suc i) * (second * 30)) (max m el)"
        using Some
        by (simp only: sample_loop.simps option.case Let_def after_rise running_max next_sample) simp
      from Suc.IH[of "Suc i" "max m el"] show ?thesis
        unfolding eq by (elim disjE exE conjE) (auto intro: Suc_leD)
    qed
  qed
qed

lemma sample_loop_cases0:
  "sample_loop n alt a0 a0 0 = None \<or>
   (\<exists>x. sample_loop n alt a0 a0 0 = Some (600, x)) \<or>
   (\<exists>k x el. k < n \<and> 0 < k \<and> alt (a0 + real k * (second * 30)) = Some el \<and> el < 0 \<and>
       sample_loop n alt a0 a0 0 = Some (30 * int k, x))"
  using sample_loop_cases[of n alt a0 0 0] by simp

lemma duration_cases:
  "(get_tle_data tf s = None \<and> calculate_pass_duration e tf s aos_time = (0, 0)) \<or>
   (\<exists>t x. get_tle_data tf s = Some t \<and> calculate_pass_duration e tf s aos_time = (600, x)) \<or>
   (\<exists>t k x el. get_tle_data tf s = Some t \<and> 1 \<le> k \<and> k \<le> 39 \<and>
       compute e t (aos_time + real k * (second * 30)) = Some el \<and> el < 0 \<and>
       calculate_pass_duration e tf s aos_time = (30 * int k, x))"
proof (cases "get_tle_data tf s")
  case None
  then show ?thesis by (simp add: calculate_pass_duration_def)
next
  case (Some t)
  show ?thesis
  proof (cases "readtle e t")
    case False
    then show ?thesis using Some by (simp add: calculate_pass_duration_def)
  next
    case True
    from sample_loop_cases0[of 40 "compute e t" aos_time]
    show ?thesis
    proof (elim disjE exE conjE)
      assume "sample_loop 40 (compute e t) aos_time aos_time 0 = None"
      then show ?thesis using Some True by (simp add: calculate_pass_duration_def)
    next
      fix x assume "sample_loop 40 (compute e t) aos_time aos_time 0 = Some (600, x)"
      then show ?thesis using Some True by (simp add: calculate_pass_duration_def)
    next
      fix k x el
      assume "k < 40" "0 < k" "compute e t (aos_time + real k * (second * 30)) = Some el" "el < 0"
        "sample_loop 40 (compute e t) aos_time aos_time 0 = Some (30 * int k, x)"
      then have "get_tle_data tf s = Some t \<and> 1 \<le> k \<and> k \<le> 39 \<and>
       compute e t (aos_time + real k * (second * 30)) = Some el \<and> el < 0 \<and>
       calculate_pass_duration e tf s aos_time = (30 * int k, x)"
        using Some True by (simp add: calculate_pass_duration_def)
      then show ?thesis by blast
    qed
  qed
qed

lemma duration_nonneg: "0 \<le> fst (calculate_pass_duration e tf s aos_time)"
  using duration_cases[of tf s e aos_time] by auto















subsection \<open>Pass prediction\<close>

text \<open>Whatever holds of the list before the loop and is kept by every append holds of the
  list the loop returns.\<close>

lemma find_passes_invariant:
  assumes r: "find_passes e cfg tf s sc t end_time date ps = Some r"
      and init: "Q ps"
      and step: "\<And>ps d tr alt ts. Q ps \<Longrightarrow> d < end_time \<Longrightarrow> next_pass e t d = Pass tr alt ts \<Longrightarrow> tr \<le> end_time
                   \<Longrightarrow> min_elevation cfg \<le> alt
                   \<Longrightarrow> Q (ps @ [\<lparr>satellite = s, aos = tr, los = ts, max_elevation = alt,
                         duration = fst (calculate_pass_duration e tf s tr),
                         frequency = sat_frequency sc\<rparr>])"
  shows "Q r"
  using r init step
proof (induction e cfg tf s sc t end_time date ps r rule: find_passes.raw_induct)
  case (1 find_passes e cfg tf sat_name sc t end_time date passes r)
  show ?case
  proof (cases "date < end_time")
    case False
    then show ?thesis using "1.hyps" "1.prems"(2) by simp
  next
    case True
    note lt = this
    show ?thesis
    proof (cases "next_pass e t date")
      case ValueError
      then show ?thesis using "1.hyps" "1.prems"(2) lt by simp
    next
      case OtherError
      then show ?thesis using "1.hyps" "1.prems"(2) lt by simp
    next
      case (Pass tr alt ts)
      show ?thesis
      proof (cases "end_time < tr")
        case True
        then show ?thesis using "1.hyps" "1.prems"(2) lt Pass by simp
      next
        case False
        let ?ps = "(if min_elevation cfg \<le> alt
               then passes @ [\<lparr>satellite = sat_name, aos = tr, los = ts, max_elevation = alt,
                         duration = fst (calculate_pass_duration e tf sat_name tr),
                         frequency = sat_frequency sc\<rparr>]
               else passes)"
        have call: "find_passes e cfg tf sat_name sc t end_time (ts + minute) ?ps = Some r"
          using "1.hyps" lt Pass False by simp
        have call': "Spec2Isabelle.find_passes e cfg tf sat_name sc t end_time (ts + minute) ?ps = Some r"
          using "1.prems"(1) lt Pass False by (subst (asm) find_passes.simps) simp
        have q: "Q ?ps"
          using "1.prems"(2) "1.prems"(3)[OF "1.prems"(2) lt Pass] False by auto
        show ?thesis
          by (rule "1.IH"[OF call call' q]) (rule "1.prems"(3))
      qed
    qed
  qed
qed (fact r)

lemma predict_sats_invariant:
  assumes r: "predict_sats e cfg tf now end_time sats ps = Some r"
      and init: "Q ps"
      and step: "\<And>ps s sc t d tr alt ts. Q ps \<Longrightarrow> (s, sc) \<in> set sats \<Longrightarrow> sat_enabled sc \<Longrightarrow> get_tle_data tf s = Some t
                   \<Longrightarrow> readtle e t \<Longrightarrow> d < end_time \<Longrightarrow> next_pass e t d = Pass tr alt ts \<Longrightarrow> tr \<le> end_time
                   \<Longrightarrow> min_elevation cfg \<le> alt
                   \<Longrightarrow> Q (ps @ [\<lparr>satellite = s, aos = tr, los = ts, max_elevation = alt,
                         duration = fst (calculate_pass_duration e tf s tr),
                         frequency = sat_frequency sc\<rparr>])"
  shows "Q r"
  using r init step
proof (induction sats arbitrary: ps)
  case Nil
  then show ?case by simp
next
  case (Cons a sats)
  obtain s sc where a: "a = (s, sc)" by (cases a)
  show ?case
  proof (cases "sat_enabled sc \<and> (\<exists>t. get_tle_data tf s = Some t \<and> readtle e t)")
    case False
    then have "predict_sats e cfg tf now end_time sats ps = Some r"
      using Cons.prems(1) a by (auto split: option.splits if_splits)
    then show ?thesis
      by (rule Cons.IH) (use Cons.prems in auto)
  next
    case True
    then obtain t where t: "sat_enabled sc" "get_tle_data tf s = Some t" "readtle e t" by auto
    then obtain ps' where f: "find_passes e cfg tf s sc t end_time now ps = Some ps'"
      and p: "predict_sats e cfg tf now end_time sats ps' = Some r"
      using Cons.prems(1) a by (auto split: option.splits)
    have "Q ps'"
      by (rule find_passes_invariant[where Q = Q, OF f Cons.prems(2)]) (use Cons.prems(3) t a in auto)
    with p show ?thesis
      by (rule Cons.IH) (use Cons.prems in auto)
  qed
qed

lemma ex_fields:
  "readtle ex_env t" "compute ex_env t x = Some 30" "next_pass ex_env = ex_next_pass"
  "makedirs ex_env p" "strftime ex_env a = ''20240101_120000''"
  "rtl_fm ex_env f sr g p secs files = Recorded (fs_write p 1000 files) True"
  "sox ex_env i out files = (Exit0, fs_write out 400 files)"
  "noaa_apt ex_env v i out files = (Exit0, fs_write out 200 files)"
  "scp ex_env p files = Exit0"
  by (simp_all add: ex_env_def)

lemma ex_cfg_fields:
  "satellites ex_cfg =
     [(''NOAA 15'', \<lparr>sat_enabled = True, sat_frequency = 137620000\<rparr>),
      (''NOAA 19'', \<lparr>sat_enabled = True, sat_frequency = 137100000\<rparr>)]"
  "min_elevation ex_cfg = 20" "audio_dir ex_cfg = ''/home/pi/audio''"
  "images_dir ex_cfg = ''/home/pi/images''" "generate ex_cfg v" "save_raw_audio ex_cfg"
  "frequency_offset ex_cfg = 0" "sample_rate ex_cfg = 60000" "rtl_sdr_gain ex_cfg = 40"
  by (simp_all add: ex_cfg_def)

lemma ex_refined:
  assumes "get_tle_data tf s = Some t"
  shows "calculate_pass_duration ex_env tf s a0 = (600, 30)"
proof -
  have "sample_loop 40 (compute ex_env t) a0 (a0 + real 0 * (second * 30)) 0
        = Some (600, py_int (Max (insert 0 ((\<lambda>j::nat. 30) ` {0..<0 + 40}))))"
    by (rule sample_loop_no_los) (simp_all add: ex_fields)
  then show ?thesis
    using assms by (simp add: calculate_pass_duration_def ex_fields py_int_def)
qed

lemma ex_find_15:
  "find_passes ex_env ex_cfg (Lines ex_lines) ''NOAA 15'' sc noaa15 45001 45000 ps
   = Some (ps @ [\<lparr>satellite = ''NOAA 15'', aos = 45000 + 1 / 2, los = 45000 + 1 / 2 + 1 / 100,
       max_elevation = 50, duration = 600, frequency = sat_frequency sc\<rparr>])"
  apply (subst find_passes.simps)
  apply (simp add: ex_fields ex_cfg_fields ex_next_pass_def noaa15_def)
  apply (subst find_passes.simps)
  apply (simp add: ex_fields ex_cfg_fields ex_next_pass_def minute_def ex_refined[OF ex_lookup_15] noaa15_def)
  done

lemma ex_find_19:
  "find_passes ex_env ex_cfg (Lines ex_lines) ''NOAA 19'' sc noaa19 45001 45000 ps
   = Some (ps @ [\<lparr>satellite = ''NOAA 19'', aos = 45000 + 1 / 4, los = 45000 + 1 / 4 + 1 / 100,
       max_elevation = 35, duration = 600, frequency = sat_frequency sc\<rparr>])"
  apply (subst find_passes.simps)
  apply (simp add: ex_fields ex_cfg_fields ex_next_pass_def noaa19_def)
  apply (subst find_passes.simps)
  apply (simp add: ex_fields ex_cfg_fields ex_next_pass_def minute_def ex_refined[OF ex_lookup_19] noaa19_def)
  done

lemma ex_prediction:
  "predict_next_passes ex_env ex_cfg (Lines ex_lines) 45000 24 = Some ex_passes"
  by (simp add: predict_next_passes_def ex_cfg_fields ex_lookup_15 ex_lookup_19 ex_fields
        ex_find_15 ex_find_19 ex_passes_def)

lemma in_progress_fields:
  "readtle in_progress_env t" "compute in_progress_env t x = Some 30"
  "next_pass in_progress_env t d =
     (if d < 45000 + 1 / 8 then Pass (45000 + 1 / 2) 50 (45000 + 1 / 4) else ValueError)"
  by (simp_all add: in_progress_env_def ex_env_def)

lemma in_progress_refined:
  assumes "get_tle_data tf s = Some t"
  shows "calculate_pass_duration in_progress_env tf s a0 = (600, 30)"
proof -
  have "sample_loop 40 (compute in_progress_env t) a0 (a0 + real 0 * (second * 30)) 0
        = Some (600, py_int (Max (insert 0 ((\<lambda>j::nat. 30) ` {0..<0 + 40}))))"
    by (rule sample_loop_no_los) (simp_all add: in_progress_fields)
  then show ?thesis
    using assms by (simp add: calculate_pass_duration_def in_progress_fields py_int_def)
qed

lemma in_progress_find:
  assumes "get_tle_data (Lines ex_lines) s = Some t"
  shows "find_passes in_progress_env ex_cfg (Lines ex_lines) s sc t 45001 45000 ps
   = Some (ps @ [\<lparr>satellite = s, aos = 45000 + 1 / 2, los = 45000 + 1 / 4,
       max_elevation = 50, duration = 600, frequency = sat_frequency sc\<rparr>])"
  apply (subst find_passes.simps)
  apply (simp add: in_progress_fields ex_cfg_fields)
  apply (subst find_passes.simps)
  apply (simp add: in_progress_fields ex_cfg_fields minute_def in_progress_refined[OF assms])
  done

lemma in_progress_prediction:
  "predict_next_passes in_progress_env ex_cfg (Lines ex_lines) 45000 24 = Some in_progress_passes"
  by (simp add: predict_next_passes_def ex_cfg_fields ex_lookup_15 ex_lookup_19 in_progress_fields
        in_progress_find in_progress_passes_def)

lemma predict_next_passes_set:
  assumes "predict_next_passes e cfg tf now hours = Some ps"
  obtains qs where "predict_sats e cfg tf now (now + real_of_int hours / 24) (satellites cfg) [] = Some qs"
    and "ps = sort_key aos qs"
  using assms by (auto simp: predict_next_passes_def)

text \<open>
  C5 (as amended). Every pass of a returned prediction list records, as its maximum elevation,
  the culmination altitude that the propagator reported together with the rise and set time
  of that pass; only the duration is the value of the refiner, whose own maximum elevation is
  dropped.
\<close>

theorem recorded_elevation_is_the_propagators:
  assumes "predict_next_passes e cfg tf now hours = Some ps" and "p \<in> set ps"
  shows "\<exists>sc t d. (satellite p, sc) \<in> set (satellites cfg) \<and>
           get_tle_data tf (satellite p) = Some t \<and>
           next_pass e t d = Pass (aos p) (max_elevation p) (los p) \<and>
           duration p = fst (calculate_pass_duration e tf (satellite p) (aos p))"
proof -
  let ?Q = "\<lambda>qs::pass_info list. \<forall>p\<in>set qs. \<exists>sc t d. (satellite p, sc) \<in> set (satellites cfg) \<and>
           get_tle_data tf (satellite p) = Some t \<and>
           next_pass e t d = Pass (aos p) (max_elevation p) (los p) \<and>
           duration p = fst (calculate_pass_duration e tf (satellite p) (aos p))"
  from assms(1) obtain qs
    where qs: "predict_sats e cfg tf now (now + real_of_int hours / 24) (satellites cfg) [] = Some qs"
      and ps: "ps = sort_key aos qs"
    by (rule predict_next_passes_set)
  have "?Q qs"
  proof (rule predict_sats_invariant[where Q = ?Q, OF qs])
    show "?Q []" by simp
  next
    fix acc :: "pass_info list" and s sc t d tr alt ts
    assume "?Q acc" "(s, sc) \<in> set (satellites cfg)" "get_tle_data tf s = Some t"
      "next_pass e t d = Pass tr alt ts"
    then show "?Q (acc @ [\<lparr>satellite = s, aos = tr, los = ts, max_elevation = alt,
                         duration = fst (calculate_pass_duration e tf s tr),
                         frequency = sat_frequency sc\<rparr>])"
      by auto
  qed
  then show ?thesis using assms(2) ps by simp
qed

theorem recorded_elevation_is_the_propagators_witness:
  "\<exists>sc t d. (''NOAA 15'', sc) \<in> set (satellites ex_cfg) \<and>
      get_tle_data (Lines ex_lines) ''NOAA 15'' = Some t \<and>
      next_pass ex_env t d = Pass (45000 + 1 / 2) 50 (45000 + 1 / 2 + 1 / 100) \<and>
      (600::int) = fst (calculate_pass_duration ex_env (Lines ex_lines) ''NOAA 15'' (45000 + 1 / 2))"
  using recorded_elevation_is_the_propagators [OF ex_prediction,
      of "\<lparr>satellite = ''NOAA 15'', aos = 45000 + 1 / 2, los = 45000 + 1 / 2 + 1 / 100,
           max_elevation = 50, duration = 600, frequency = 137620000\<rparr>"]
  by (simp add: ex_passes_def)

theorem recorded_elevation_counterexample:
  "predict_next_passes ex_env ex_cfg (Lines ex_lines) 45000 24 = Some ex_passes \<and>
   max_elevation (ex_passes ! 1) = 50 \<and> aos (ex_passes ! 1) = 45000 + 1 / 2 \<and>
   satellite (ex_passes ! 1) = ''NOAA 15'' \<and>
   calculate_pass_duration ex_env (Lines ex_lines) ''NOAA 15'' (45000 + 1 / 2) = (600, 30)"
  by (simp add: ex_prediction ex_refined[OF ex_lookup_15] ex_passes_def)

text \<open>
  C7 (as amended). Every prediction list returned is ordered non-decreasing by rise time, and
  every element has a duration of at least zero and a maximum elevation of at least the
  configured minimum. Rise before set and an elevation between 0 and 90 are not checked:
  they hold of every element when they hold of every pass the propagator reports.
\<close>

theorem prediction_list_invariants:
  assumes "predict_next_passes e cfg tf now hours = Some ps"
  shows "sorted (map aos ps) \<and>
         (\<forall>p\<in>set ps. 0 \<le> duration p \<and> min_elevation cfg \<le> max_elevation p) \<and>
         ((\<forall>t d tr alt ts. next_pass e t d = Pass tr alt ts \<longrightarrow> tr < ts \<and> 0 \<le> alt \<and> alt \<le> 90)
            \<longrightarrow> (\<forall>p\<in>set ps. aos p < los p \<and> 0 \<le> max_elevation p \<and> max_elevation p \<le> 90))"
proof -
  from assms obtain qs
    where qs: "predict_sats e cfg tf now (now + real_of_int hours / 24) (satellites cfg) [] = Some qs"
      and ps: "ps = sort_key aos qs"
    by (rule predict_next_passes_set)
  have srt: "sorted (map aos ps)" unfolding ps by (rule sorted_sort_key)
  let ?A = "\<lambda>qs::pass_info list. \<forall>p\<in>set qs. 0 \<le> duration p \<and> min_elevation cfg \<le> max_elevation p"
  have a: "?A qs"
  proof (rule predict_sats_invariant[where Q = ?A, OF qs])
    show "?A []" by simp
  next
    fix acc :: "pass_info list" and s sc t d tr alt ts
    assume "?A acc" "min_elevation cfg \<le> alt"
    then show "?A (acc @ [\<lparr>satellite = s, aos = tr, los = ts, max_elevation = alt,
                         duration = fst (calculate_pass_duration e tf s tr),
                         frequency = sat_frequency sc\<rparr>])"
      by (simp add: duration_nonneg)
  qed
  have b: "\<forall>p\<in>set qs. aos p < los p \<and> 0 \<le> max_elevation p \<and> max_elevation p \<le> 90"
    if h: "\<forall>t d tr alt ts. next_pass e t d = Pass tr alt ts \<longrightarrow> tr < ts \<and> 0 \<le> alt \<and> alt \<le> 90"
  proof -
    let ?B = "\<lambda>qs::pass_info list. \<forall>p\<in>set qs. aos p < los p \<and> 0 \<le> max_elevation p \<and> max_elevation p \<le> 90"
    show "?B qs"
    proof (rule predict_sats_invariant[where Q = ?B, OF qs])
      show "?B []" by simp
    next
      fix acc :: "pass_info list" and s sc t d tr alt ts
      assume "?B acc" "next_pass e t d = Pass tr alt ts"
      then show "?B (acc @ [\<lparr>satellite = s, aos = tr, los = ts, max_elevation = alt,
                         duration = fst (calculate_pass_duration e tf s tr),
                         frequency = sat_frequency sc\<rparr>])"
        using h by auto
    qed
  qed
  show ?thesis using srt a b unfolding ps by simp
qed

lemma ex_next_pass_sound:
  "\<forall>t d tr alt ts. next_pass ex_env t d = Pass tr alt ts \<longrightarrow> tr < ts \<and> 0 \<le> alt \<and> alt \<le> 90"
  by (simp add: ex_fields ex_next_pass_def)

theorem prediction_list_invariants_witness:
  "predict_next_passes ex_env ex_cfg (Lines ex_lines) 45000 24 = Some ex_passes \<and>
   sorted (map aos ex_passes) \<and>
   list_all (\<lambda>p. 0 \<le> duration p \<and> min_elevation ex_cfg \<le> max_elevation p) ex_passes \<and>
   list_all (\<lambda>p. aos p < los p \<and> 0 \<le> max_elevation p \<and> max_elevation p \<le> 90) ex_passes"
  using prediction_list_invariants [OF ex_prediction] ex_next_pass_sound ex_prediction
  by (simp add: list_all_iff)

theorem prediction_list_invariants_counterexample:
  "predict_next_passes in_progress_env ex_cfg (Lines ex_lines) 45000 24 = Some in_progress_passes \<and>
   aos (in_progress_passes ! 0) = 45000 + 1 / 2 \<and> los (in_progress_passes ! 0) = 45000 + 1 / 4 \<and>
   \<not> aos (in_progress_passes ! 0) < los (in_progress_passes ! 0)"
  by (simp add: in_progress_prediction in_progress_passes_def)

subsection \<open>Image pipeline\<close>

lemma fs_emit [simp]: "fs (emit ev w) = fs w"
  by (simp add: emit_def)

lemma fs_logmsg [simp]: "fs (logmsg lv m w) = fs w"
  by (simp add: logmsg_def)

lemma trace_emit [simp]: "trace (emit ev w) = trace w @ [ev]"
  by (simp add: emit_def)

lemma trace_logmsg [simp]: "trace (logmsg lv m w) = trace w @ [Log lv m]"
  by (simp add: logmsg_def)

lemma events_since_append [simp]: "trace w' = trace w @ evs \<Longrightarrow> events_since w w' = evs"
  by (simp add: events_since_def)

text \<open>
  C9. When the resampler does not exit with status zero, the run of the pipeline invokes the
  decoder for no variant and makes no attempt to forward an image.
\<close>

theorem resample_failure_stops_pipeline:
  assumes "fst (sox e audio_file (str_replace ''.wav'' ''_resampled.wav'' audio_file) (fs w)) \<noteq> Exit0"
  shows "decoded (events_since w (snd (process_audio e cfg audio_file filename_base w))) = [] \<and>
         forwarded (events_since w (snd (process_audio e cfg audio_file filename_base w))) = []"
proof (cases "makedirs e (images_dir cfg)")
  case False
  then have "trace (snd (process_audio e cfg audio_file filename_base w))
             = trace w @ [Log INFO (''Processing audio: '' @ audio_file)]"
    by (simp add: process_audio_def)
  then show ?thesis by simp
next
  case True
  let ?r = "str_replace ''.wav'' ''_resampled.wav'' audio_file"
  obtain o' files where s: "sox e audio_file ?r (fs w) = (o', files)"
    by (cases "sox e audio_file ?r (fs w)")
  with assms have ne: "o' \<noteq> Exit0" by simp
  show ?thesis
  proof (cases o')
    case Exit0
    with ne show ?thesis by simp
  next
    case NonZero
    then have "trace (snd (process_audio e cfg audio_file filename_base w))
               = trace w @ [Log INFO (''Processing audio: '' @ audio_file), Run_sox audio_file ?r,
                            Log ERROR ''Failed to resample audio'']"
      using True s by (simp add: process_audio_def)
    then show ?thesis by simp
  next
    case OSError
    then have "trace (snd (process_audio e cfg audio_file filename_base w))
               = trace w @ [Log INFO (''Processing audio: '' @ audio_file), Run_sox audio_file ?r]"
      using True s by (simp add: process_audio_def)
    then show ?thesis by simp
  qed
qed

lemma ex_resampled_path: "str_replace ''.wav'' ''_resampled.wav'' ex_audio = ex_resampled"
  by code_simp

lemma sox_fails_fields: "sox sox_fails_env i out files = (NonZero, fs_write out 44 files)"
  by (simp add: sox_fails_env_def ex_env_def)

theorem resample_failure_stops_pipeline_witness:
  "fst (sox sox_fails_env ex_audio (str_replace ''.wav'' ''_resampled.wav'' ex_audio) (fs ex_world))
     \<noteq> Exit0 \<and>
   decoded (events_since ex_world (snd (process_audio sox_fails_env ex_cfg ex_audio ex_base ex_world))) = [] \<and>
   forwarded (events_since ex_world (snd (process_audio sox_fails_env ex_cfg ex_audio ex_base ex_world))) = []"
  using resample_failure_stops_pipeline [of sox_fails_env ex_audio ex_world ex_cfg ex_base]
  by (simp add: sox_fails_fields)

text \<open>
  C4, evaluated where it fails. The resampler stops with a non-zero status after it has begun
  to write its output: \<open>process_audio\<close> logs the error and returns at once, and the
  resampled file is still there. In the run in which every step succeeds the file is removed.
\<close>

theorem resampled_file_left_behind:
  "fst (process_audio sox_fails_env ex_cfg ex_audio ex_base ex_world) = None \<and>
   path_exists ex_resampled (fs (snd (process_audio sox_fails_env ex_cfg ex_audio ex_base ex_world))) \<and>
   \<not> path_exists ex_resampled (fs (snd (process_audio ex_env ex_cfg ex_audio ex_base ex_world)))"
  by code_simp

text \<open>
  C1, evaluated where it fails. The decoder fails on the basic image and succeeds on the four
  enhancements. All five are attempted, the files of MSA and of HVCT both exist afterwards,
  and the one image forwarded is the HVCT file: \<open>first_image\<close> is still unset, and
  \<open>_HVCT.png\<close> sorts before \<open>_MSA.png\<close>.
\<close>

theorem forwarded_image_is_not_first_success:
  "decoded (events_since ex_world (snd (process_audio no_basic_env ex_cfg ex_audio ex_base ex_world)))
     = [Basic, MSA, MSA_PRECIP, HVCT, THERM] \<and>
   fst (noaa_apt no_basic_env MSA ex_resampled (output_file_of (images_dir ex_cfg) ex_base MSA) [])
     = Exit0 \<and>
   path_exists (output_file_of (images_dir ex_cfg) ex_base MSA)
     (fs (snd (process_audio no_basic_env ex_cfg ex_audio ex_base ex_world))) \<and>
   forwarded (events_since ex_world (snd (process_audio no_basic_env ex_cfg ex_audio ex_base ex_world)))
     = [''/home/pi/images/NOAA_15_20240101_120000_HVCT.png''] \<and>
   output_file_of (images_dir ex_cfg) ex_base MSA = ''/home/pi/images/NOAA_15_20240101_120000_MSA.png''"
  by code_simp

subsection \<open>Capture session\<close>

lemma decoded_append [simp]: "decoded (xs @ ys) = decoded xs @ decoded ys"
  by (induction xs rule: decoded.induct) simp_all

lemma forwarded_append [simp]: "forwarded (xs @ ys) = forwarded xs @ forwarded ys"
  by (induction xs rule: forwarded.induct) simp_all

lemma pipeline_runs_append [simp]: "pipeline_runs (xs @ ys) = pipeline_runs xs @ pipeline_runs ys"
  by (induction xs rule: pipeline_runs.induct) simp_all

lemma interrupt_emit [simp]: "interrupt (emit ev w) = interrupt w"
  by (simp add: emit_def)

lemma interrupt_logmsg [simp]: "interrupt (logmsg lv m w) = interrupt w"
  by (simp add: logmsg_def)

lemma clock_emit [simp]: "clock (emit ev w) = clock w"
  by (simp add: emit_def)

lemma clock_logmsg [simp]: "clock (logmsg lv m w) = clock w"
  by (simp add: logmsg_def)

text \<open>What the body of the \<open>try\<close> adds to the trace when the artifact is missing or
  empty, or when the recorder cannot be started.\<close>

lemma record_and_process_without_artifact:
  assumes "\<not> (\<exists>files exited n. rtl_fm e (frequency p + frequency_offset cfg) (sample_rate cfg)
                 (rtl_sdr_gain cfg) audio_file (real_of_int (duration p)) (fs w)
               = Recorded files exited \<and> map_of files audio_file = Some n \<and> 0 < n)"
  shows "\<exists>evs. trace (snd (record_and_process e cfg p audio_file filename_base w)) = trace w @ evs \<and>
           pipeline_runs evs = [] \<and> decoded evs = [] \<and> forwarded evs = []"
  using assms
  by (auto simp: record_and_process_def sleep_def Let_def
           split: rec_result.splits option.splits if_splits)


lemma except_Exception_trace:
  assumes "trace (snd r) = trace w @ evs"
  shows "\<exists>more. trace (snd (except_Exception m r)) = trace w @ evs @ more \<and>
           pipeline_runs more = [] \<and> decoded more = [] \<and> forwarded more = []"
  using assms
  by (cases r) (auto simp: except_Exception_def split: option.splits exn.splits)

lemma capture_pass_without_artifact:
  assumes "\<not> (\<exists>files exited n. recording_of e cfg p w = Recorded files exited \<and>
               map_of files (audio_file_of e cfg p) = Some n \<and> 0 < n)"
  shows "\<exists>evs. trace (snd (capture_pass e cfg p w)) = trace w @ evs \<and>
           pipeline_runs evs = [] \<and> decoded evs = [] \<and> forwarded evs = []"
proof -
  let ?base = "str_replace '' '' ''_'' (satellite p) @ ''_'' @ strftime e (aos p)"
  let ?audio = "audio_file_of e cfg p"
  have body: "\<exists>evs. trace (snd (except_Exception ''Error during capture''
                      (record_and_process e cfg p ?audio ?base w'))) = trace w' @ evs \<and>
           pipeline_runs evs = [] \<and> decoded evs = [] \<and> forwarded evs = []"
    if "fs w' = fs w" for w'
  proof -
    have "\<not> (\<exists>files exited n. rtl_fm e (frequency p + frequency_offset cfg) (sample_rate cfg)
                 (rtl_sdr_gain cfg) ?audio (real_of_int (duration p)) (fs w')
               = Recorded files exited \<and> map_of files ?audio = Some n \<and> 0 < n)"
      using assms that by (simp add: recording_of_def)
    then obtain evs where evs: "trace (snd (record_and_process e cfg p ?audio ?base w')) = trace w' @ evs"
      "pipeline_runs evs = []" "decoded evs = []" "forwarded evs = []"
      using record_and_process_without_artifact by blast
    from except_Exception_trace[OF evs(1), of "''Error during capture''"] evs(2-4)
    show ?thesis by auto
  qed
  show ?thesis
  proof (cases "makedirs e (audio_dir cfg)")
    case False
    then show ?thesis by (simp add: capture_pass_def)
  next
    case True
    let ?w1 = "logmsg INFO (''Starting capture: '' @ satellite p) w"
    show ?thesis
    proof (cases "aos p > clock w")
      case False
      let ?w3 = "logmsg DEBUG ''Command: rtl_fm ...'' (logmsg INFO ''Recording...'' ?w1)"
      from body[of ?w3] obtain evs where
        "trace (snd (except_Exception ''Error during capture''
                      (record_and_process e cfg p ?audio ?base ?w3))) = trace ?w3 @ evs"
        "pipeline_runs evs = []" "decoded evs = []" "forwarded evs = []"
        by auto
      then show ?thesis using True False
        by (simp add: capture_pass_def Let_def audio_file_of_def)
    next
      case later: True
      let ?w2 = "logmsg INFO ''Waiting until AOS...'' ?w1"
      let ?secs = "(aos p - clock w) * 86400"
      show ?thesis
      proof (cases "fst (sleep ?secs ?w2)")
        case (Some x)
        then show ?thesis using True later
          by (auto simp: capture_pass_def Let_def sleep_def split: if_splits)
      next
        case None
        then have sl: "sleep ?secs ?w2 = (None, (emit (Sleep ?secs) ?w2)\<lparr>clock := clock w + ?secs * second\<rparr>)"
          by (auto simp: sleep_def split: if_splits)
        let ?w2' = "(emit (Sleep ?secs) ?w2)\<lparr>clock := clock w + ?secs * second\<rparr>"
        let ?w3 = "logmsg DEBUG ''Command: rtl_fm ...'' (logmsg INFO ''Recording...'' ?w2')"
        have f: "fs ?w3 = fs w" by simp
        from body[OF f] obtain evs where
          "trace (snd (except_Exception ''Error during capture''
                      (record_and_process e cfg p ?audio ?base ?w3))) = trace ?w3 @ evs"
          "pipeline_runs evs = []" "decoded evs = []" "forwarded evs = []"
          by auto
        then show ?thesis using True later sl
          by (simp add: capture_pass_def Let_def audio_file_of_def)
      qed
    qed
  qed
qed


lemma capture_pass_reports_empty_artifact:
  assumes "recording_of e cfg p w = Recorded files exited"
      and "map_of files (audio_file_of e cfg p) = None \<or> map_of files (audio_file_of e cfg p) = Some 0"
      and "makedirs e (audio_dir cfg)" and "\<forall>t s. \<not> interrupt w t s" and "0 \<le> duration p"
  shows "fst (capture_pass e cfg p w) = None \<and>
         last (trace (snd (capture_pass e cfg p w)))
           = Log ERROR (''Audio file is empty or doesn't exist: '' @ audio_file_of e cfg p)"
  using assms
  by (auto simp: capture_pass_def record_and_process_def except_Exception_def sleep_def Let_def
        audio_file_of_def recording_of_def)

text \<open>
  C8. A capture session enters the image pipeline only if the recorder has run and the audio
  file it leaves exists with a size above zero. When the file is missing or empty the session
  enters no pipeline, runs no decoder and forwards nothing; and, if the audio directory
  can be made and nothing interrupts the waits, it returns after logging the error
  \<open>Audio file is empty or doesn't exist\<close>.
\<close>

theorem pipeline_only_for_nonempty_artifact:
  "(pipeline_runs (events_since w (snd (capture_pass e cfg p w))) \<noteq> [] \<longrightarrow>
      (\<exists>files exited n. recording_of e cfg p w = Recorded files exited \<and>
          map_of files (audio_file_of e cfg p) = Some n \<and> 0 < n)) \<and>
   (recording_of e cfg p w = Recorded files exited \<and>
    (map_of files (audio_file_of e cfg p) = None \<or> map_of files (audio_file_of e cfg p) = Some 0) \<longrightarrow>
      pipeline_runs (events_since w (snd (capture_pass e cfg p w))) = [] \<and>
      decoded (events_since w (snd (capture_pass e cfg p w))) = [] \<and>
      forwarded (events_since w (snd (capture_pass e cfg p w))) = [] \<and>
      (makedirs e (audio_dir cfg) \<and> (\<forall>t s. \<not> interrupt w t s) \<and> 0 \<le> duration p \<longrightarrow>
         fst (capture_pass e cfg p w) = None \<and>
         last (trace (snd (capture_pass e cfg p w)))
           = Log ERROR (''Audio file is empty or doesn't exist: '' @ audio_file_of e cfg p)))"
proof (intro conjI impI)
  assume ne: "pipeline_runs (events_since w (snd (capture_pass e cfg p w))) \<noteq> []"
  show "\<exists>files exited n. recording_of e cfg p w = Recorded files exited \<and>
          map_of files (audio_file_of e cfg p) = Some n \<and> 0 < n"
  proof (rule ccontr)
    assume "\<not> ?thesis"
    from capture_pass_without_artifact[OF this] ne show False by auto
  qed
next
  assume h: "recording_of e cfg p w = Recorded files exited \<and>
    (map_of files (audio_file_of e cfg p) = None \<or> map_of files (audio_file_of e cfg p) = Some 0)"
  then have no: "\<not> (\<exists>files exited n. recording_of e cfg p w = Recorded files exited \<and>
               map_of files (audio_file_of e cfg p) = Some n \<and> 0 < n)"
    by auto
  from capture_pass_without_artifact[OF no]
  show "pipeline_runs (events_since w (snd (capture_pass e cfg p w))) = []"
    and "decoded (events_since w (snd (capture_pass e cfg p w))) = []"
    and "forwarded (events_since w (snd (capture_pass e cfg p w))) = []"
    by auto
  assume "makedirs e (audio_dir cfg) \<and> (\<forall>t s. \<not> interrupt w t s) \<and> 0 \<le> duration p"
  with h capture_pass_reports_empty_artifact[of e cfg p w files exited]
  show "fst (capture_pass e cfg p w) = None"
    and "last (trace (snd (capture_pass e cfg p w)))
           = Log ERROR (''Audio file is empty or doesn't exist: '' @ audio_file_of e cfg p)"
    by auto
qed

lemma ex_recordings:
  "audio_file_of ex_env ex_cfg ex_pass = ex_audio"
  "audio_file_of empty_recording_env ex_cfg ex_pass = ex_audio"
  "recording_of ex_env ex_cfg ex_pass ex_world = Recorded [(ex_audio, 1000)] True"
  "recording_of empty_recording_env ex_cfg ex_pass ex_world = Recorded [(ex_audio, 0)] True"
  by code_simp+

lemma ex_capture_runs_pipeline:
  "pipeline_runs (events_since ex_world (snd (capture_pass ex_env ex_cfg ex_pass ex_world))) = [ex_audio]"
  by code_simp

lemma empty_recording_setting:
  "makedirs empty_recording_env (audio_dir ex_cfg) \<and> (\<forall>t s. \<not> interrupt ex_world t s) \<and>
   0 \<le> duration ex_pass"
  by (simp add: empty_recording_env_def ex_env_def ex_world_def ex_pass_def)

theorem pipeline_only_for_nonempty_artifact_witness:
  "pipeline_runs (events_since ex_world (snd (capture_pass ex_env ex_cfg ex_pass ex_world))) = [ex_audio] \<and>
   (\<exists>files exited n. recording_of ex_env ex_cfg ex_pass ex_world = Recorded files exited \<and>
       map_of files (audio_file_of ex_env ex_cfg ex_pass) = Some n \<and> 0 < n) \<and>
   recording_of empty_recording_env ex_cfg ex_pass ex_world = Recorded [(ex_audio, 0)] True \<and>
   pipeline_runs (events_since ex_world (snd (capture_pass empty_recording_env ex_cfg ex_pass ex_world))) = [] \<and>
   fst (capture_pass empty_recording_env ex_cfg ex_pass ex_world) = None \<and>
   last (trace (snd (capture_pass empty_recording_env ex_cfg ex_pass ex_world)))
     = Log ERROR (''Audio file is empty or doesn't exist: '' @ ex_audio)"
  using pipeline_only_for_nonempty_artifact [of ex_world ex_env ex_cfg ex_pass]
    pipeline_only_for_nonempty_artifact [of ex_world empty_recording_env ex_cfg ex_pass
      "[(ex_audio, 0)]" True]
    ex_capture_runs_pipeline empty_recording_setting
  by (simp add: ex_recordings)

subsection \<open>Scheduler\<close>




end
